theory Spec2Isabelle
  imports Main "HOL-Library.Char_ord" "HOL-Library.List_Lexorder"
begin

section \<open>Python values and exceptions\<close>

text \<open>
  The values \<^verbatim>\<open>json.load\<close> returns: \<^verbatim>\<open>None\<close>, booleans, unbounded integers, floats,
  strings, lists and dicts. A \<^verbatim>\<open>str\<close> is represented by its UTF-8 bytes, a float by its
  \<^verbatim>\<open>repr\<close>, and a dict by its items in insertion order (every key of a dict made by
  \<^verbatim>\<open>json.load\<close> is a \<^verbatim>\<open>str\<close>). Each call of \<^verbatim>\<open>json.load\<close> builds fresh objects, so no
  two records of \<^verbatim>\<open>cards\<close> are the same object and value semantics is faithful.
\<close>

datatype pyval =
    PNone
  | PBool bool
  | PInt int
  | PFloat string
  | PStr string
  | PList "pyval list"
  | PDict "(string \<times> pyval) list"

text \<open>
  The exceptions the script can raise. None is caught, so each one ends the run with a
  traceback and exit status 1. \<open>ValueError\<close> stands for \<^verbatim>\<open>json.JSONDecodeError\<close> and
  \<^verbatim>\<open>UnicodeDecodeError\<close>, both subclasses of it.
\<close>

datatype py_error = OSError | ValueError | TypeError

subsection \<open>Iteration, as \<^verbatim>\<open>list.extend\<close> consumes its argument\<close>

definition utf8_cont :: "char \<Rightarrow> bool" where
  "utf8_cont c = (128 \<le> (of_char c :: nat) \<and> (of_char c :: nat) < 192)"

text \<open>Iterating over a \<^verbatim>\<open>str\<close> yields its code points, each as a \<^verbatim>\<open>str\<close> of length one.\<close>

function str_iter :: "string \<Rightarrow> string list" where
  "str_iter [] = []"
| "str_iter (c # cs) = (c # takeWhile utf8_cont cs) # str_iter (dropWhile utf8_cont cs)"
  by pat_completeness auto
termination
  by (relation "measure length") (auto simp: length_dropWhile_le less_Suc_eq_le)

text \<open>
  \<^verbatim>\<open>cards.extend(x)\<close> accepts any iterable: a list gives its elements, a dict its keys,
  a \<^verbatim>\<open>str\<close> its characters; \<^verbatim>\<open>None\<close>, booleans and numbers are not iterable.
\<close>

fun py_iter :: "pyval \<Rightarrow> py_error + pyval list" where
  "py_iter (PList xs) = Inr xs"
| "py_iter (PDict kvs) = Inr (map (\<lambda>kv. PStr (fst kv)) kvs)"
| "py_iter (PStr s) = Inr (map PStr (str_iter s))"
| "py_iter PNone = Inl TypeError"
| "py_iter (PBool b) = Inl TypeError"
| "py_iter (PInt i) = Inl TypeError"
| "py_iter (PFloat r) = Inl TypeError"

subsection \<open>Item assignment \<^verbatim>\<open>c[k] = v\<close>\<close>

text \<open>
  On a dict an existing key keeps its position and gets the new value, a new key is
  appended.
\<close>

fun dict_set :: "(string \<times> pyval) list \<Rightarrow> string \<Rightarrow> pyval \<Rightarrow> (string \<times> pyval) list" where
  "dict_set [] k v = [(k, v)]"
| "dict_set (kv # kvs) k v = (if fst kv = k then (k, v) # kvs else kv # dict_set kvs k v)"

text \<open>
  With a \<^verbatim>\<open>str\<close> key, item assignment raises \<^verbatim>\<open>TypeError\<close> on everything that is not a
  dict (a list wants an integer index, the other types support no item assignment).
\<close>

fun setitem :: "pyval \<Rightarrow> string \<Rightarrow> pyval \<Rightarrow> py_error + pyval" where
  "setitem (PDict kvs) k v = Inr (PDict (dict_set kvs k v))"
| "setitem c k v = Inl TypeError"

section \<open>The file system the script sees\<close>

text \<open>
  A path, as \<^verbatim>\<open>open\<close> followed by \<^verbatim>\<open>json.load\<close> treats it: \<open>NoOpen\<close> when \<^verbatim>\<open>open\<close>
  raises \<^verbatim>\<open>OSError\<close> (a directory, no permission), \<open>NoParse\<close> when the bytes are not a
  JSON document in UTF-8, \<open>Document v\<close> when they decode to \<open>v\<close>.
\<close>

datatype partition_file = NoOpen | NoParse | Document pyval

text \<open>
  \<open>listing\<close> is what \<^verbatim>\<open>os.scandir(base)\<close> yields, in the order it yields it, and \<open>None\<close>
  when it raises \<^verbatim>\<open>OSError\<close> (the directory is missing or cannot be read);
  \<open>content\<close> gives the file behind each path; \<open>english\<close> is the text of the output file,
  \<open>None\<close> while it does not exist; \<open>english_writable\<close> says whether \<^verbatim>\<open>open(out, "w")\<close>
  succeeds; \<open>stdout\<close> holds the lines printed so far.
\<close>

record world =
  listing :: "string list option"
  content :: "string \<Rightarrow> partition_file"
  english :: "string option"
  english_writable :: bool
  stdout :: "string list"

definition base :: string where
  "base = ''/Users/israasaleh/flashcard-system/cards/sections''"

definition out :: string where
  "out = ''/Users/israasaleh/flashcard-system/cards/english.json''"

section \<open>Discovery: \<^verbatim>\<open>sorted(glob.glob(os.path.join(base, "sec_*.json")))\<close>\<close>

text \<open>
  \<^verbatim>\<open>fnmatch\<close> against \<^verbatim>\<open>sec_*.json\<close>: the name starts with \<^verbatim>\<open>sec_\<close>, ends with
  \<^verbatim>\<open>.json\<close>, and the two do not overlap.
\<close>

definition fnmatch_sec :: "string \<Rightarrow> bool" where
  "fnmatch_sec name =
     (9 \<le> length name \<and> take 4 name = ''sec_'' \<and> drop (length name - 5) name = ''.json'')"

text \<open>
  \<^verbatim>\<open>glob.glob\<close> lists the directory, keeps the matching names and joins each to the
  directory. An \<^verbatim>\<open>OSError\<close> of \<^verbatim>\<open>os.scandir\<close> is swallowed inside \<^verbatim>\<open>glob\<close>: the result
  is then the empty list.
\<close>

definition glob_sections :: "world \<Rightarrow> string list" where
  "glob_sections w =
     (case listing w of
        None \<Rightarrow> []
      | Some names \<Rightarrow> map (\<lambda>n. base @ ''/'' @ n) (filter fnmatch_sec names))"

text \<open>\<^verbatim>\<open>sorted\<close> on strings: ascending by code point, which is ascending by UTF-8 byte.\<close>

definition discover :: "world \<Rightarrow> string list" where
  "discover w = sort (glob_sections w)"

section \<open>Assembly\<close>

text \<open>The loop of lines 10 to 12, with \<open>cards\<close> as the accumulator.\<close>

fun load_all :: "world \<Rightarrow> string list \<Rightarrow> pyval list \<Rightarrow> py_error + pyval list" where
  "load_all w [] cards = Inr cards"
| "load_all w (f # fs) cards =
     (case content w f of
        NoOpen \<Rightarrow> Inl OSError
      | NoParse \<Rightarrow> Inl ValueError
      | Document v \<Rightarrow>
          (case py_iter v of
             Inl e \<Rightarrow> Inl e
           | Inr xs \<Rightarrow> load_all w fs (cards @ xs)))"

text \<open>The loop of lines 15 and 16: \<^verbatim>\<open>enumerate(cards, 1)\<close> counts from the first argument.\<close>

fun renumber :: "int \<Rightarrow> pyval list \<Rightarrow> py_error + pyval list" where
  "renumber i [] = Inr []"
| "renumber i (c # cs) =
     (case setitem c ''id'' (PInt i) of
        Inl e \<Rightarrow> Inl e
      | Inr c' \<Rightarrow>
          (case renumber (i + 1) cs of
             Inl e \<Rightarrow> Inl e
           | Inr cs' \<Rightarrow> Inr (c' # cs')))"

text \<open>Lines 8 to 16: the value of \<^verbatim>\<open>cards\<close> when the output is about to be written.\<close>

definition assemble :: "world \<Rightarrow> py_error + pyval list" where
  "assemble w =
     (case load_all w (discover w) [] of
        Inl e \<Rightarrow> Inl e
      | Inr cards \<Rightarrow> renumber 1 cards)"

section \<open>Serialisation: \<^verbatim>\<open>json.dump(cards, fh, ensure_ascii=False, indent=2)\<close>\<close>

definition digit_char :: "nat \<Rightarrow> char" where
  "digit_char d = ''0123456789abcdef'' ! d"

text \<open>\<^verbatim>\<open>str\<close> of a non-negative integer: its decimal digits.\<close>

fun str_nat :: "nat \<Rightarrow> string" where
  "str_nat n = (if n < 10 then [digit_char n] else str_nat (n div 10) @ [digit_char (n mod 10)])"

declare str_nat.simps [simp del]

definition str_int :: "int \<Rightarrow> string" where
  "str_int i = (if i < 0 then CHR ''-'' # str_nat (nat (- i)) else str_nat (nat i))"

text \<open>
  With \<^verbatim>\<open>ensure_ascii=False\<close> the encoder escapes the backslash, the double quote and
  the control characters below \<^verbatim>\<open>0x20\<close>, and writes every other character as it is.
\<close>

definition escape_char :: "char \<Rightarrow> string" where
  "escape_char c =
     (if c = CHR 0x5C then [CHR 0x5C, CHR 0x5C]
      else if c = CHR 0x22 then [CHR 0x5C, CHR 0x22]
      else if c = CHR 0x08 then [CHR 0x5C, CHR ''b'']
      else if c = CHR 0x0C then [CHR 0x5C, CHR ''f'']
      else if c = CHR 0x0A then [CHR 0x5C, CHR ''n'']
      else if c = CHR 0x0D then [CHR 0x5C, CHR ''r'']
      else if c = CHR 0x09 then [CHR 0x5C, CHR ''t'']
      else if (of_char c :: nat) < 32
        then [CHR 0x5C, CHR ''u'', CHR ''0'', CHR ''0'',
              digit_char ((of_char c :: nat) div 16), digit_char ((of_char c :: nat) mod 16)]
      else [c])"

definition encode_basestring :: "string \<Rightarrow> string" where
  "encode_basestring s = CHR 0x22 # concat (map escape_char s) @ [CHR 0x22]"

definition newline_indent :: "nat \<Rightarrow> string" where
  "newline_indent level = CHR 0x0A # replicate (2 * level) CHR '' ''"

text \<open>
  The encoder at nesting depth \<open>level\<close>. With an indent the item separator is a comma
  followed by the newline and indentation, the key separator is a colon and a space;
  an empty list or dict is written without a line break. A float is written as its
  \<^verbatim>\<open>repr\<close>, which is the text \<open>PFloat\<close> carries.
\<close>

fun iterencode :: "nat \<Rightarrow> pyval \<Rightarrow> string"
  and iterencode_list :: "nat \<Rightarrow> pyval list \<Rightarrow> string"
  and iterencode_dict :: "nat \<Rightarrow> (string \<times> pyval) list \<Rightarrow> string" where
  "iterencode level PNone = ''null''"
| "iterencode level (PBool b) = (if b then ''true'' else ''false'')"
| "iterencode level (PInt i) = str_int i"
| "iterencode level (PFloat r) = r"
| "iterencode level (PStr s) = encode_basestring s"
| "iterencode level (PList xs) =
     (if xs = [] then ''[]''
      else ''['' @ newline_indent (level + 1) @ iterencode_list (level + 1) xs
           @ newline_indent level @ '']'')"
| "iterencode level (PDict kvs) =
     (if kvs = [] then ''{}''
      else ''{'' @ newline_indent (level + 1) @ iterencode_dict (level + 1) kvs
           @ newline_indent level @ ''}'')"
| "iterencode_list level [] = []"
| "iterencode_list level [x] = iterencode level x"
| "iterencode_list level (x # y # xs) =
     iterencode level x @ '','' @ newline_indent level @ iterencode_list level (y # xs)"
| "iterencode_dict level [] = []"
| "iterencode_dict level [(k, v)] = encode_basestring k @ '': '' @ iterencode level v"
| "iterencode_dict level ((k, v) # kv # kvs) =
     encode_basestring k @ '': '' @ iterencode level v @ '','' @ newline_indent level
     @ iterencode_dict level (kv # kvs)"

definition json_dump :: "pyval list \<Rightarrow> string" where
  "json_dump cards = iterencode 0 (PList cards)"

section \<open>The whole script\<close>

text \<open>
  The run returns the exception that ended it (\<open>None\<close> when it ran to the end) and the
  world it leaves. The output file is opened only after both loops have finished, and
  the summary is printed only after the file has been written. Of the failures of the
  write step the model has the one of \<^verbatim>\<open>open\<close>, which leaves the file as it was.
\<close>

definition build :: "world \<Rightarrow> py_error option \<times> world" where
  "build w =
     (case assemble w of
        Inl e \<Rightarrow> (Some e, w)
      | Inr cards \<Rightarrow>
          if english_writable w
          then (None,
                w\<lparr>english := Some (json_dump cards),
                  stdout := stdout w
                    @ [''Assembled '' @ str_nat (length cards) @ '' cards into '' @ out]\<rparr>)
          else (Some OSError, w))"

text \<open>The exit status of the interpreter: 1 after an uncaught exception, 0 otherwise.\<close>

definition exit_status :: "py_error option \<Rightarrow> nat" where
  "exit_status r = (case r of None \<Rightarrow> 0 | Some e \<Rightarrow> 1)"

section \<open>Observers used to state the properties\<close>

fun is_dict :: "pyval \<Rightarrow> bool" where
  "is_dict (PDict kvs) = True"
| "is_dict c = False"

text \<open>The value of a field of a record, as \<^verbatim>\<open>c.get(k)\<close> reads it.\<close>

fun dict_get :: "pyval \<Rightarrow> string \<Rightarrow> pyval option" where
  "dict_get (PDict kvs) k = map_of kvs k"
| "dict_get c k = None"

text \<open>The fields of a record other than \<^verbatim>\<open>id\<close>, in the order the record has them.\<close>

fun payload :: "pyval \<Rightarrow> (string \<times> pyval) list" where
  "payload (PDict kvs) = filter (\<lambda>kv. fst kv \<noteq> ''id'') kvs"
| "payload c = []"

text \<open>Reading a decimal numeral back.\<close>

definition digit_value :: "char \<Rightarrow> nat" where
  "digit_value c = (of_char c :: nat) - 48"

definition nat_of_str :: "string \<Rightarrow> nat" where
  "nat_of_str s = foldl (\<lambda>a c. 10 * a + digit_value c) 0 s"


section \<open>Concrete inputs\<close>

text \<open>
  The scenario of the specification: partition A holds one record with id 99, partition
  B holds a record without id and one with id 5. The directory lists B before A and
  holds a file that is no partition.
\<close>

definition scenario_parts :: "pyval list list" where
  "scenario_parts =
     [[PDict [(''term'', PStr ''hablar''), (''id'', PInt 99)]],
      [PDict [(''term'', PStr ''comer'')], PDict [(''term'', PStr ''vivir''), (''id'', PInt 5)]]]"

definition scenario_output :: "pyval list" where
  "scenario_output =
     [PDict [(''term'', PStr ''hablar''), (''id'', PInt 1)],
      PDict [(''term'', PStr ''comer''), (''id'', PInt 2)],
      PDict [(''term'', PStr ''vivir''), (''id'', PInt 3)]]"

definition scenario_content :: "string \<Rightarrow> partition_file" where
  "scenario_content p =
     (if p = base @ ''/sec_a.json'' then Document (PList (scenario_parts ! 0))
      else if p = base @ ''/sec_b.json'' then Document (PList (scenario_parts ! 1))
      else NoOpen)"

definition scenario :: world where
  "scenario =
     \<lparr>listing = Some [''sec_b.json'', ''notes.txt'', ''sec_a.json''],
      content = scenario_content,
      english = None, english_writable = True, stdout = []\<rparr>"

text \<open>A partition whose array holds a record, a string and a number.\<close>

definition mixed_cards :: "pyval list" where
  "mixed_cards = [PDict [(''term'', PStr ''hablar'')], PStr ''comer'', PInt 7]"

definition mixed_world :: world where
  "mixed_world =
     \<lparr>listing = Some [''sec_01.json''],
      content = (\<lambda>p. Document (PList mixed_cards)),
      english = Some ''[]'', english_writable = True, stdout = []\<rparr>"

text \<open>Three partitions whose lexical order differs from the numeric one.\<close>

definition lexical_parts :: "pyval list list" where
  "lexical_parts =
     [[PDict [(''term'', PStr ''uno'')]], [PDict [(''term'', PStr ''diez'')]],
      [PDict [(''term'', PStr ''dos'')]]]"

definition lexical_content :: "string \<Rightarrow> partition_file" where
  "lexical_content p =
     (if p = base @ ''/sec_1.json'' then Document (PList (lexical_parts ! 0))
      else if p = base @ ''/sec_10.json'' then Document (PList (lexical_parts ! 1))
      else if p = base @ ''/sec_2.json'' then Document (PList (lexical_parts ! 2))
      else NoOpen)"

definition lexical_world :: world where
  "lexical_world =
     \<lparr>listing = Some [''sec_2.json'', ''sec_10.json'', ''sec_1.json'', ''sec_3.txt''],
      content = lexical_content,
      english = None, english_writable = True, stdout = []\<rparr>"

text \<open>Two partitions, both holding the empty array; a stale output file exists.\<close>

definition empty_world :: world where
  "empty_world =
     \<lparr>listing = Some [''sec_01.json'', ''sec_02.json''],
      content = (\<lambda>p. Document (PList [])),
      english = Some ''stale'', english_writable = True, stdout = []\<rparr>"

text \<open>The directory of the partitions does not exist.\<close>

definition missing_world :: world where
  "missing_world =
     \<lparr>listing = None,
      content = (\<lambda>p. NoOpen),
      english = None, english_writable = True, stdout = []\<rparr>"




section \<open>Lemmas about the two loops\<close>

lemma map_of_dict_set: "map_of (dict_set kvs k v) = (map_of kvs)(k \<mapsto> v)"
  by (induction kvs) auto

lemma filter_dict_set:
  "filter (\<lambda>kv. fst kv \<noteq> k) (dict_set kvs k v) = filter (\<lambda>kv. fst kv \<noteq> k) kvs"
  by (induction kvs) auto

lemma setitem_Inr:
  "setitem c k v = Inr c' \<longleftrightarrow> (\<exists>kvs. c = PDict kvs \<and> c' = PDict (dict_set kvs k v))"
  by (cases c) auto

lemma setitem_Inl: "setitem c k v = Inl e \<longleftrightarrow> (\<not> is_dict c \<and> e = TypeError)"
  by (cases c) auto

lemma renumber_length: "renumber i cs = Inr ds \<Longrightarrow> length ds = length cs"
  by (induction cs arbitrary: i ds) (auto split: sum.splits)

lemma renumber_nth:
  "renumber i cs = Inr ds \<Longrightarrow> j < length cs \<Longrightarrow>
   \<exists>kvs. cs ! j = PDict kvs \<and> ds ! j = PDict (dict_set kvs ''id'' (PInt (i + int j)))"
proof (induction cs arbitrary: i ds j)
  case Nil
  then show ?case by simp
next
  case (Cons c cs)
  from Cons.prems(1) obtain c' cs' where
    c': "setitem c ''id'' (PInt i) = Inr c'" and
    cs': "renumber (i + 1) cs = Inr cs'" and
    ds: "ds = c' # cs'"
    by (auto split: sum.splits)
  show ?case
  proof (cases j)
    case 0
    with c' ds show ?thesis by (simp add: setitem_Inr)
  next
    case (Suc j')
    with Cons.prems(2) have "j' < length cs" by simp
    from Cons.IH [OF cs' this] obtain kvs where
      "cs ! j' = PDict kvs" and
      "cs' ! j' = PDict (dict_set kvs ''id'' (PInt (i + 1 + int j')))"
      by blast
    moreover have "i + 1 + int j' = i + int (Suc j')" by simp
    ultimately show ?thesis unfolding Suc ds by simp
  qed
qed

lemma renumber_ids:
  "renumber i cs = Inr ds \<Longrightarrow>
   map (\<lambda>c. dict_get c ''id'') ds = map (\<lambda>n. Some (PInt n)) [i..i + int (length cs) - 1]"
proof (rule nth_equalityI)
  assume r: "renumber i cs = Inr ds"
  show "length (map (\<lambda>c. dict_get c ''id'') ds)
        = length (map (\<lambda>n. Some (PInt n)) [i..i + int (length cs) - 1])"
    using renumber_length [OF r] by simp
  fix j assume "j < length (map (\<lambda>c. dict_get c ''id'') ds)"
  then have j: "j < length cs" using renumber_length [OF r] by simp
  from renumber_nth [OF r j] obtain kvs where
    "ds ! j = PDict (dict_set kvs ''id'' (PInt (i + int j)))" by blast
  with j renumber_length [OF r]
  show "map (\<lambda>c. dict_get c ''id'') ds ! j
        = map (\<lambda>n. Some (PInt n)) [i..i + int (length cs) - 1] ! j"
    by (simp add: map_of_dict_set)
qed

lemma renumber_dicts: "(\<exists>ds. renumber i cs = Inr ds) \<longleftrightarrow> list_all is_dict cs"
proof (induction cs arbitrary: i)
  case Nil
  then show ?case by simp
next
  case (Cons c cs)
  show ?case
  proof (cases c)
    case (PDict kvs)
    with Cons [of "i + 1"] show ?thesis by (auto split: sum.splits)
  qed (simp_all)
qed

lemma renumber_TypeError: "renumber i cs = Inl e \<Longrightarrow> e = TypeError"
  by (induction cs arbitrary: i) (auto split: sum.splits simp: setitem_Inl)

lemma load_all_lists:
  "map (content w) fs = map (\<lambda>p. Document (PList p)) parts \<Longrightarrow>
   load_all w fs acc = Inr (acc @ concat parts)"
proof (induction fs arbitrary: acc parts)
  case Nil
  then show ?case by simp
next
  case (Cons f fs)
  then obtain p ps where "parts = p # ps" by (cases parts) auto
  with Cons show ?case by simp
qed


section \<open>Lemmas about discovery\<close>

lemma insort_map_mono:
  fixes f :: "'a::linorder \<Rightarrow> 'b::linorder"
  assumes "\<And>x y. f x \<le> f y \<longleftrightarrow> x \<le> y"
  shows "map f (insort x xs) = insort (f x) (map f xs)"
  by (induction xs) (simp_all add: assms)

lemma sort_map_mono:
  fixes f :: "'a::linorder \<Rightarrow> 'b::linorder"
  assumes "\<And>x y. f x \<le> f y \<longleftrightarrow> x \<le> y"
  shows "sort (map f xs) = map f (sort xs)"
  by (induction xs) (simp_all add: insort_map_mono [OF assms])

lemma append_le_append: "(p @ x \<le> p @ y) \<longleftrightarrow> (x \<le> (y :: string))"
  by (induction p) simp_all

lemma discover_names:
  "listing w = Some names \<Longrightarrow>
   discover w = map (\<lambda>n. base @ ''/'' @ n) (sort (filter fnmatch_sec names))"
proof -
  have "\<And>x y :: string. (base @ ''/'' @ x \<le> base @ ''/'' @ y) \<longleftrightarrow> x \<le> y"
    by (simp only: append_le_append)
  from sort_map_mono [of "\<lambda>n. base @ ''/'' @ n", OF this]
  show "listing w = Some names \<Longrightarrow> ?thesis"
    by (simp add: discover_def glob_sections_def)
qed


text \<open>The output file is not one of the partitions, so writing it changes none of them.\<close>

lemma out_not_discovered: "out \<notin> set (discover w)"
  by (auto simp: discover_def glob_sections_def out_def base_def split: option.splits)

section \<open>The concrete inputs, evaluated\<close>

lemma discover_scenario: "discover scenario = [base @ ''/sec_a.json'', base @ ''/sec_b.json'']"
  by (simp add: discover_def glob_sections_def scenario_def fnmatch_sec_def base_def)

lemma content_scenario:
  "map (content scenario) (discover scenario) = map (\<lambda>p. Document (PList p)) scenario_parts"
  by (simp add: discover_scenario) (simp add: scenario_def scenario_content_def scenario_parts_def)

lemma load_scenario: "load_all scenario (discover scenario) [] = Inr (concat scenario_parts)"
  using load_all_lists [OF content_scenario, of "[]"] by simp

lemma assemble_scenario: "assemble scenario = Inr scenario_output"
  by (simp add: assemble_def load_scenario scenario_parts_def scenario_output_def)

lemma discover_mixed: "discover mixed_world = [base @ ''/sec_01.json'']"
  by (simp add: discover_def glob_sections_def mixed_world_def fnmatch_sec_def)

lemma load_mixed: "load_all mixed_world (discover mixed_world) [] = Inr mixed_cards"
  by (simp add: discover_mixed) (simp add: mixed_world_def)

section \<open>Renumbering\<close>

text \<open>
  Claim C1. When the partitions load and the run reaches the end of the renumbering
  loop, the dataset has as many records as were loaded, and the \<^verbatim>\<open>id\<close> fields of its
  records, read in order, are 1, 2, ..., N. Nothing is assumed about the \<^verbatim>\<open>id\<close> a
  record had before: present, absent, repeated or out of order.
\<close>

theorem renumbering:
  assumes "load_all w (discover w) [] = Inr cards" and "assemble w = Inr ds"
  shows "length ds = length cards \<and>
         map (\<lambda>c. dict_get c ''id'') ds = map (\<lambda>n. Some (PInt n)) [1..int (length cards)]"
proof -
  from assms have r: "renumber 1 cards = Inr ds"
    by (simp add: assemble_def)
  from renumber_length [OF r] renumber_ids [OF r] show ?thesis by simp
qed

theorem renumbering_witness:
  "load_all scenario (discover scenario) [] = Inr (concat scenario_parts) \<and>
   assemble scenario = Inr scenario_output \<and>
   length scenario_output = length (concat scenario_parts) \<and>
   map (\<lambda>c. dict_get c ''id'') scenario_output
     = map (\<lambda>n. Some (PInt n)) [1..int (length (concat scenario_parts))]"
  using renumbering [OF load_scenario assemble_scenario] load_scenario assemble_scenario
  by simp

section \<open>Ordering\<close>

text \<open>
  Claim C2. Let the discovered partition files hold the arrays \<open>parts\<close>, in discovery
  order. Then assembly succeeds whenever every record is an object, and the dataset it
  yields has exactly one record for each record of the concatenation of \<open>parts\<close>, at the
  same position: the source record with its \<^verbatim>\<open>id\<close> set. No record is moved, dropped or
  repeated.
\<close>

theorem ordering:
  assumes "map (content w) (discover w) = map (\<lambda>p. Document (PList p)) parts"
  shows "(list_all is_dict (concat parts) \<longrightarrow> (\<exists>ds. assemble w = Inr ds)) \<and>
         (\<forall>ds. assemble w = Inr ds \<longrightarrow>
            length ds = length (concat parts) \<and>
            (\<forall>j<length ds. \<exists>kvs. concat parts ! j = PDict kvs \<and>
               ds ! j = PDict (dict_set kvs ''id'' (PInt (int j + 1)))))"
proof -
  from load_all_lists [OF assms, of "[]"]
  have a: "assemble w = renumber 1 (concat parts)"
    by (simp add: assemble_def)
  have "list_all is_dict (concat parts) \<longrightarrow> (\<exists>ds. assemble w = Inr ds)"
    unfolding a by (simp add: renumber_dicts)
  moreover have "length ds = length (concat parts) \<and>
      (\<forall>j<length ds. \<exists>kvs. concat parts ! j = PDict kvs \<and>
         ds ! j = PDict (dict_set kvs ''id'' (PInt (int j + 1))))"
    if r: "assemble w = Inr ds" for ds
  proof -
    from r a have r': "renumber 1 (concat parts) = Inr ds" by simp
    have "\<exists>kvs. concat parts ! j = PDict kvs \<and>
            ds ! j = PDict (dict_set kvs ''id'' (PInt (int j + 1)))"
      if "j < length ds" for j
      using renumber_nth [OF r', of j] that renumber_length [OF r']
      by (simp add: add.commute)
    with renumber_length [OF r'] show ?thesis by blast
  qed
  ultimately show ?thesis by blast
qed

theorem ordering_witness:
  "map (content scenario) (discover scenario) = map (\<lambda>p. Document (PList p)) scenario_parts \<and>
   list_all is_dict (concat scenario_parts) \<and>
   assemble scenario = Inr scenario_output \<and>
   length scenario_output = length (concat scenario_parts) \<and>
   (\<exists>kvs. concat scenario_parts ! 1 = PDict kvs \<and>
      scenario_output ! 1 = PDict (dict_set kvs ''id'' (PInt 2)))"
proof -
  have d: "list_all is_dict (concat scenario_parts)"
    by (simp add: scenario_parts_def)
  have "(1::nat) < length scenario_output"
    by (simp add: scenario_output_def)
  with ordering [OF content_scenario] assemble_scenario
  have "length scenario_output = length (concat scenario_parts) \<and>
        (\<exists>kvs. concat scenario_parts ! 1 = PDict kvs \<and>
           scenario_output ! 1 = PDict (dict_set kvs ''id'' (PInt (int 1 + 1))))"
    by blast
  with d content_scenario assemble_scenario show ?thesis by simp
qed

section \<open>Payload preservation\<close>

text \<open>
  Claim C6. The record at each position of the assembled dataset has the fields other
  than \<^verbatim>\<open>id\<close> of the loaded record at that position, in the same order and with the
  same values; looking up any key other than \<^verbatim>\<open>id\<close> gives the same result on both.
  No field is required to be present.
\<close>

theorem payload_preservation:
  assumes "load_all w (discover w) [] = Inr cards" and "assemble w = Inr ds"
    and "j < length cards"
  shows "payload (ds ! j) = payload (cards ! j) \<and>
         (\<forall>k. k \<noteq> ''id'' \<longrightarrow> dict_get (ds ! j) k = dict_get (cards ! j) k)"
proof -
  from assms(1,2) have r: "renumber 1 cards = Inr ds"
    by (simp add: assemble_def)
  from renumber_nth [OF r assms(3)] obtain kvs where
    "cards ! j = PDict kvs" and "ds ! j = PDict (dict_set kvs ''id'' (PInt (1 + int j)))"
    by blast
  then show ?thesis
    by (simp add: filter_dict_set map_of_dict_set)
qed

theorem payload_preservation_witness:
  "load_all scenario (discover scenario) [] = Inr (concat scenario_parts) \<and>
   assemble scenario = Inr scenario_output \<and>
   (2::nat) < length (concat scenario_parts) \<and>
   payload (scenario_output ! 2) = [(''term'', PStr ''vivir'')] \<and>
   payload (concat scenario_parts ! 2) = [(''term'', PStr ''vivir'')] \<and>
   dict_get (scenario_output ! 2) ''term'' = dict_get (concat scenario_parts ! 2) ''term'' \<and>
   dict_get (scenario_output ! 2) ''lemma'' = dict_get (concat scenario_parts ! 2) ''lemma''"
proof -
  have h: "(2::nat) < length (concat scenario_parts)"
    by (simp add: scenario_parts_def)
  have "payload (scenario_output ! 2) = [(''term'', PStr ''vivir'')]"
    by (simp add: scenario_output_def)
  with payload_preservation [OF load_scenario assemble_scenario h]
    load_scenario assemble_scenario h
  show ?thesis by simp
qed

section \<open>Records must be objects\<close>

text \<open>
  Claim C10. When the partitions load, assembly produces a dataset if and only if every
  loaded element is a dict; otherwise the assignment of \<^verbatim>\<open>id\<close> raises \<^verbatim>\<open>TypeError\<close> and
  the run ends with that exception. An instance is a partition whose array holds a
  string and a number beside a record.
\<close>

theorem records_must_be_objects:
  assumes "load_all w (discover w) [] = Inr cards"
  shows "((\<exists>ds. assemble w = Inr ds) \<longleftrightarrow> list_all is_dict cards) \<and>
         (\<not> list_all is_dict cards \<longrightarrow>
            assemble w = Inl TypeError \<and> fst (build w) = Some TypeError)"
proof -
  from assms have a: "assemble w = renumber 1 cards"
    by (simp add: assemble_def)
  have "assemble w = Inl TypeError" if "\<not> list_all is_dict cards"
  proof (cases "renumber 1 cards")
    case (Inl e)
    with renumber_TypeError [OF Inl] a show ?thesis by simp
  next
    case (Inr ds)
    with renumber_dicts [of 1 cards] that show ?thesis by blast
  qed
  then show ?thesis
    unfolding a [symmetric] using a renumber_dicts [of 1 cards]
    by (auto simp: build_def)
qed

theorem records_must_be_objects_witness:
  "load_all mixed_world (discover mixed_world) [] = Inr mixed_cards \<and>
   \<not> list_all is_dict mixed_cards \<and>
   \<not> (\<exists>ds. assemble mixed_world = Inr ds) \<and>
   assemble mixed_world = Inl TypeError \<and> fst (build mixed_world) = Some TypeError"
proof -
  have "\<not> list_all is_dict mixed_cards"
    by (simp add: mixed_cards_def)
  with records_must_be_objects [OF load_mixed] load_mixed
  show ?thesis by simp
qed

section \<open>Decimal numerals\<close>

lemma digit_value_digit_char: "d < 10 \<Longrightarrow> digit_value (digit_char d) = d"
proof -
  assume "d < 10"
  then have "d = 0 \<or> d = 1 \<or> d = 2 \<or> d = 3 \<or> d = 4 \<or> d = 5 \<or> d = 6
    \<or> d = 7 \<or> d = 8 \<or> d = 9"
    by arith
  then show ?thesis
    by (elim disjE) (simp_all add: digit_value_def digit_char_def)
qed

lemma nat_of_str_snoc: "nat_of_str (s @ [c]) = 10 * nat_of_str s + digit_value c"
  by (simp add: nat_of_str_def)

lemma nat_of_str_str_nat: "nat_of_str (str_nat n) = n"
proof (induction n rule: str_nat.induct)
  case (1 n)
  show ?case
  proof (cases "n < 10")
    case True
    then have "str_nat n = [] @ [digit_char n]"
      by (subst str_nat.simps) simp
    with True show ?thesis
      by (simp only: nat_of_str_snoc digit_value_digit_char) (simp add: nat_of_str_def)
  next
    case False
    with 1 have ih: "nat_of_str (str_nat (n div 10)) = n div 10" by simp
    from False have "str_nat n = str_nat (n div 10) @ [digit_char (n mod 10)]"
      by (subst str_nat.simps) simp
    then show ?thesis
      by (simp only: nat_of_str_snoc ih digit_value_digit_char [of "n mod 10"]) simp
  qed
qed

section \<open>Partition order\<close>

text \<open>
  Claim C5. The discovered list is ascending in the lexicographic order of strings, a
  total order, and holds exactly the paths that \<^verbatim>\<open>glob\<close> found; it is the matching names
  of the directory, sorted, each joined to the directory. The records are loaded in
  that order: partition arrays \<open>parts\<close>, taken in the order of the discovered list, are
  loaded as their concatenation. The order is lexical, not numeric: \<^verbatim>\<open>sec_10\<close> comes
  before \<^verbatim>\<open>sec_2\<close>.
\<close>

theorem partition_order:
  "sorted (discover w) \<and> set (discover w) = set (glob_sections w) \<and>
   length (discover w) = length (glob_sections w) \<and>
   (\<forall>names. listing w = Some names \<longrightarrow>
      discover w = map (\<lambda>n. base @ ''/'' @ n) (sort (filter fnmatch_sec names))) \<and>
   (\<forall>parts. map (content w) (discover w) = map (\<lambda>p. Document (PList p)) parts \<longrightarrow>
      load_all w (discover w) [] = Inr (concat parts))"
proof -
  have a: "sorted (discover w)"
    by (simp add: discover_def)
  have b: "set (discover w) = set (glob_sections w)"
    by (simp add: discover_def)
  have c: "length (discover w) = length (glob_sections w)"
    by (simp add: discover_def)
  have d: "\<forall>names. listing w = Some names \<longrightarrow>
      discover w = map (\<lambda>n. base @ ''/'' @ n) (sort (filter fnmatch_sec names))"
    using discover_names by blast
  have e: "\<forall>parts. map (content w) (discover w) = map (\<lambda>p. Document (PList p)) parts \<longrightarrow>
      load_all w (discover w) [] = Inr (concat parts)"
  proof (intro allI impI)
    fix parts
    assume "map (content w) (discover w) = map (\<lambda>p. Document (PList p)) parts"
    from load_all_lists [OF this, of "[]"]
    show "load_all w (discover w) [] = Inr (concat parts)" by simp
  qed
  from a b c d e show ?thesis by (intro conjI)
qed


theorem partition_order_witness:
  "listing lexical_world = Some [''sec_2.json'', ''sec_10.json'', ''sec_1.json'', ''sec_3.txt''] \<and>
   discover lexical_world
     = [base @ ''/sec_1.json'', base @ ''/sec_10.json'', base @ ''/sec_2.json''] \<and>
   sorted (discover lexical_world) \<and>
   map (content lexical_world) (discover lexical_world)
     = map (\<lambda>p. Document (PList p)) lexical_parts \<and>
   load_all lexical_world (discover lexical_world) [] = Inr (concat lexical_parts)"
proof -
  note p = partition_order [of lexical_world]
  have l: "listing lexical_world
           = Some [''sec_2.json'', ''sec_10.json'', ''sec_1.json'', ''sec_3.txt'']"
    by (simp add: lexical_world_def)
  from p have s: "sorted (discover lexical_world)" by (rule conjunct1)
  from p l have "discover lexical_world = map (\<lambda>n. base @ ''/'' @ n)
      (sort (filter fnmatch_sec [''sec_2.json'', ''sec_10.json'', ''sec_1.json'', ''sec_3.txt'']))"
    by blast
  then have d: "discover lexical_world
      = [base @ ''/sec_1.json'', base @ ''/sec_10.json'', base @ ''/sec_2.json'']"
    by (simp add: fnmatch_sec_def)
  have c: "map (content lexical_world) (discover lexical_world)
        = map (\<lambda>p. Document (PList p)) lexical_parts"
    unfolding d by (simp add: lexical_world_def lexical_content_def lexical_parts_def)
  with p have "load_all lexical_world (discover lexical_world) [] = Inr (concat lexical_parts)"
    by blast
  with l d s c show ?thesis by (intro conjI)
qed

section \<open>Empty input\<close>

lemma load_all_empty:
  "(\<And>f. f \<in> set fs \<Longrightarrow> content w f = Document (PList [])) \<Longrightarrow> load_all w fs acc = Inr acc"
  by (induction fs arbitrary: acc) simp_all

lemma json_dump_Nil: "json_dump [] = ''[]''"
  by (simp add: json_dump_def)

lemma discover_empty_world:
  "discover empty_world = [base @ ''/sec_01.json'', base @ ''/sec_02.json'']"
  by (simp add: discover_def glob_sections_def empty_world_def fnmatch_sec_def base_def)

lemma discover_missing: "listing w = None \<Longrightarrow> discover w = []"
  by (simp add: discover_def glob_sections_def)

text \<open>
  Claim C7. When every discovered partition holds the empty array, which includes the
  case that no partition is discovered, and the output file can be opened for writing,
  the run ends without an exception, with exit status 0, and the output file holds the
  text of the empty array.
\<close>

theorem empty_input:
  assumes "\<forall>f\<in>set (discover w). content w f = Document (PList [])"
    and "english_writable w"
  shows "assemble w = Inr [] \<and> fst (build w) = None \<and> exit_status (fst (build w)) = 0 \<and>
         english (snd (build w)) = Some ''[]''"
proof -
  from assms(1) have "load_all w (discover w) [] = Inr []"
    by (intro load_all_empty) simp
  then have a: "assemble w = Inr []"
    by (simp add: assemble_def)
  with assms(2) show ?thesis
    by (simp add: build_def exit_status_def json_dump_Nil)
qed

theorem empty_input_witness:
  "discover empty_world = [base @ ''/sec_01.json'', base @ ''/sec_02.json''] \<and>
   content empty_world (base @ ''/sec_01.json'') = Document (PList []) \<and>
   content empty_world (base @ ''/sec_02.json'') = Document (PList []) \<and>
   english_writable empty_world \<and>
   english empty_world = Some ''stale'' \<and>
   assemble empty_world = Inr [] \<and> fst (build empty_world) = None \<and>
   exit_status (fst (build empty_world)) = 0 \<and>
   english (snd (build empty_world)) = Some ''[]'' \<and>
   discover missing_world = [] \<and>
   fst (build missing_world) = None \<and> english (snd (build missing_world)) = Some ''[]''"
proof -
  have c: "\<forall>f\<in>set (discover empty_world). content empty_world f = Document (PList [])"
    by (simp add: empty_world_def)
  have w: "english_writable empty_world"
    by (simp add: empty_world_def)
  have m: "discover missing_world = []"
    by (rule discover_missing) (simp add: missing_world_def)
  then have c': "\<forall>f\<in>set (discover missing_world). content missing_world f = Document (PList [])"
    by simp
  have w': "english_writable missing_world"
    by (simp add: missing_world_def)
  have "content empty_world (base @ ''/sec_01.json'') = Document (PList [])"
    "content empty_world (base @ ''/sec_02.json'') = Document (PList [])"
    "english empty_world = Some ''stale''"
    by (simp_all add: empty_world_def)
  with empty_input [OF c w] empty_input [OF c' w'] discover_empty_world w m
  show ?thesis by (simp add: exit_status_def)
qed

section \<open>The success report\<close>

text \<open>
  Claim C9. When the run ends without an exception, the dataset has been assembled, the
  output file holds its serialisation, and exactly one line has been added to standard
  output: the word \<^verbatim>\<open>Assembled\<close>, the number of records of the dataset in decimal, and
  the path of the output file. When the run ends with an exception, whether raised
  while loading, while renumbering or while opening the output file, nothing has been
  printed.
\<close>

theorem success_report:
  "(fst (build w) = None \<longrightarrow>
      (\<exists>cards. assemble w = Inr cards \<and>
         english (snd (build w)) = Some (json_dump cards) \<and>
         stdout (snd (build w))
           = stdout w @ [''Assembled '' @ str_nat (length cards) @ '' cards into '' @ out] \<and>
         nat_of_str (str_nat (length cards)) = length cards)) \<and>
   (fst (build w) \<noteq> None \<longrightarrow> stdout (snd (build w)) = stdout w)"
  by (cases "assemble w") (simp_all add: build_def nat_of_str_str_nat)

lemma str_nat_3: "str_nat 3 = ''3''"
  by (subst str_nat.simps) (simp add: digit_char_def)

theorem success_report_witness:
  "fst (build scenario) = None \<and>
   stdout (snd (build scenario))
     = [''Assembled 3 cards into /Users/israasaleh/flashcard-system/cards/english.json''] \<and>
   english (snd (build scenario)) = Some (json_dump scenario_output) \<and>
   fst (build mixed_world) = Some TypeError \<and>
   stdout (snd (build mixed_world)) = []"
proof -
  have s: "fst (build scenario) = None"
    by (simp add: build_def assemble_scenario) (simp add: scenario_def)
  have m: "fst (build mixed_world) = Some TypeError"
    by (simp add: build_def assemble_def load_mixed) (simp add: mixed_cards_def)
  from success_report [of scenario] s assemble_scenario
  have "english (snd (build scenario)) = Some (json_dump scenario_output)"
    and "stdout (snd (build scenario))
      = stdout scenario @ [''Assembled '' @ str_nat (length scenario_output) @ '' cards into '' @ out]"
    by auto
  moreover have "stdout scenario = []" "length scenario_output = 3"
    by (simp_all add: scenario_def scenario_output_def)
  moreover from success_report [of mixed_world] m
  have "stdout (snd (build mixed_world)) = stdout mixed_world" by simp
  moreover have "stdout mixed_world = []"
    by (simp add: mixed_world_def)
  ultimately show ?thesis
    using s m by (simp add: str_nat_3 out_def)
qed

section \<open>A missing source directory\<close>

lemma assemble_no_partitions: "discover w = [] \<Longrightarrow> assemble w = Inr []"
  by (simp add: assemble_def)

lemma str_nat_0: "str_nat 0 = ''0''"
  by (subst str_nat.simps) (simp add: digit_char_def)

text \<open>
  Claim C4, as stated, fails: with the source directory missing, discovery returns the
  empty list and the run goes on to write an empty array and to report zero cards, with
  exit status 0.
\<close>

theorem discovery_failure_counterexample:
  "listing missing_world = None \<and> discover missing_world = [] \<and>
   assemble missing_world = Inr [] \<and>
   fst (build missing_world) = None \<and> exit_status (fst (build missing_world)) = 0 \<and>
   english (snd (build missing_world)) = Some ''[]'' \<and>
   stdout (snd (build missing_world))
     = [''Assembled 0 cards into /Users/israasaleh/flashcard-system/cards/english.json'']"
proof -
  have l: "listing missing_world = None"
    by (simp add: missing_world_def)
  have d: "discover missing_world = []"
    by (rule discover_missing) (rule l)
  have a: "assemble missing_world = Inr []"
    by (rule assemble_no_partitions) (rule d)
  have "build missing_world
        = (None, missing_world\<lparr>english := Some ''[]'',
             stdout := [''Assembled 0 cards into '' @ out]\<rparr>)"
    by (simp add: build_def a json_dump_Nil str_nat_0) (simp add: missing_world_def)
  with l d a show ?thesis
    by (simp add: exit_status_def out_def)
qed

text \<open>
  Claim C4, amended. When the source directory does not exist or cannot be enumerated,
  discovery does not fail: it returns the empty list of partitions, assembly yields the
  empty dataset, and the run ends without an exception if the output file can be opened
  for writing.
\<close>

theorem missing_source_is_empty:
  assumes "listing w = None"
  shows "discover w = [] \<and> assemble w = Inr [] \<and>
         fst (build w) = (if english_writable w then None else Some OSError)"
proof -
  from assms have d: "discover w = []" by (rule discover_missing)
  then have "assemble w = Inr []" by (rule assemble_no_partitions)
  with d show ?thesis by (simp add: build_def)
qed

theorem missing_source_is_empty_witness:
  "listing missing_world = None \<and> english_writable missing_world \<and>
   discover missing_world = [] \<and> assemble missing_world = Inr [] \<and>
   fst (build missing_world) = None"
proof -
  have l: "listing missing_world = None"
    by (simp add: missing_world_def)
  have w: "english_writable missing_world"
    by (simp add: missing_world_def)
  with missing_source_is_empty [OF l] l show ?thesis by simp
qed

section \<open>A partition that holds a single object\<close>







section \<open>Determinism\<close>






end
